theory Spec2Isabelle
  imports Complex_Main
begin

section \<open>Python values, exceptions and effects\<close>

text \<open>
  The module \<^verbatim>\<open>lib/tmdbscraper/api_utils.py\<close> handles values decoded from JSON and the
  dictionaries it builds itself. A dictionary is an association list in insertion order;
  a \<^verbatim>\<open>str\<close> and a \<^verbatim>\<open>bytes\<close> object are both a \<open>string\<close>. A float is kept as the number it
  denotes: the module only ever tests one for truth.
\<close>

datatype pyval =
    PNone
  | PBool bool
  | PInt int
  | PFloat real
  | PStr string
  | PList "pyval list"
  | PDict "(string \<times> pyval) list"

type_synonym pydict = "(string \<times> pyval) list"
type_synonym bytes = string

text \<open>
  Exceptions carry their class and the text \<^verbatim>\<open>str(e)\<close>. Every class below derives from
  \<^verbatim>\<open>Exception\<close>, so \<^verbatim>\<open>except Exception\<close> catches each of them.
\<close>

datatype exn_class =
    ValueError | TypeError | AttributeError | KeyError | UnboundLocalError
  | OSError | JSONDecodeError | HTTPError | RequestException | RuntimeError

datatype exn = Exn exn_class string

fun exn_str :: "exn \<Rightarrow> string" where
  "exn_str (Exn c m) = m"

text \<open>What the module does to the outside world, in the order it does it.\<close>

datatype log_level = LOGDEBUG | LOGWARNING | LOGERROR

datatype event =
    EvGetProperty string
  | EvSocket
  | EvSettimeout int
  | EvConnect string int
  | EvSendall bytes
  | EvClose
  | EvLog string log_level
  | EvHttpGet string pyval pyval int

fun is_http_get :: "event \<Rightarrow> bool" where
  "is_http_get (EvHttpGet url params headers timeout) = True"
| "is_http_get ev = False"

record response =
  status_code :: int
  text_body :: string

text \<open>
  The collaborators of the module: the Kodi modules, Python's built-ins and libraries, the
  socket and the network. \<open>xbmc_imported\<close> stands for both \<^verbatim>\<open>xbmc\<close> and \<^verbatim>\<open>xbmcgui\<close>: the two
  imports share one \<^verbatim>\<open>try\<close>, so either both modules are bound or both names are \<^verbatim>\<open>None\<close>.
  \<open>sock_recv k\<close> is what the \<open>k\<close>-th call of \<^verbatim>\<open>sock.recv(4096)\<close> gives.
\<close>

record env =
  xbmc_imported :: bool
  getProperty :: "string \<Rightarrow> exn + string"
  py_int :: "string \<Rightarrow> exn + int"
  py_str :: "pyval \<Rightarrow> string"
  urlencode :: "pyval \<Rightarrow> exn + string"
  sock_create :: "exn option"
  sock_connect :: "string \<Rightarrow> int \<Rightarrow> exn option"
  json_dumps :: "pyval \<Rightarrow> exn + bytes"
  sock_sendall :: "bytes \<Rightarrow> exn option"
  sock_recv :: "nat \<Rightarrow> exn + bytes"
  json_loads :: "string \<Rightarrow> exn + pyval"
  requests_get :: "string \<Rightarrow> pyval \<Rightarrow> pyval \<Rightarrow> int \<Rightarrow> exn + response"
  raise_for_status :: "response \<Rightarrow> exn option"
  resp_json :: "response \<Rightarrow> exn + pyval"

subsection \<open>Built-in operations on values\<close>

fun truthy :: "pyval \<Rightarrow> bool" where
  "truthy PNone = False"
| "truthy (PBool b) = b"
| "truthy (PInt i) = (i \<noteq> 0)"
| "truthy (PFloat x) = (x \<noteq> 0)"
| "truthy (PStr s) = (s \<noteq> [])"
| "truthy (PList xs) = (xs \<noteq> [])"
| "truthy (PDict d) = (d \<noteq> [])"

text \<open>\<^verbatim>\<open>a or b\<close>, for an already evaluated \<open>b\<close>.\<close>

definition py_or :: "pyval \<Rightarrow> pyval \<Rightarrow> pyval" where
  "py_or a b = (if truthy a then a else b)"

fun has_key :: "string \<Rightarrow> pydict \<Rightarrow> bool" where
  "has_key k [] = False"
| "has_key k ((k', v) # d) = (k = k' \<or> has_key k d)"

fun dict_lookup :: "pydict \<Rightarrow> string \<Rightarrow> pyval option" where
  "dict_lookup [] k = None"
| "dict_lookup ((k', v) # d) k = (if k = k' then Some v else dict_lookup d k)"

fun is_prefix :: "string \<Rightarrow> string \<Rightarrow> bool" where
  "is_prefix [] ys = True"
| "is_prefix (x # xs) [] = False"
| "is_prefix (x # xs) (y # ys) = (x = y \<and> is_prefix xs ys)"

fun is_substring :: "string \<Rightarrow> string \<Rightarrow> bool" where
  "is_substring xs [] = (xs = [])"
| "is_substring xs (y # ys) = (is_prefix xs (y # ys) \<or> is_substring xs ys)"

text \<open>
  \<^verbatim>\<open>k in v\<close> for a string \<open>k\<close>: a key of a dictionary, an element of a list, a substring of a
  string; any other value is not iterable.
\<close>

fun py_contains :: "string \<Rightarrow> pyval \<Rightarrow> exn + bool" where
  "py_contains k (PDict d) = Inr (has_key k d)"
| "py_contains k (PList xs) = Inr (PStr k \<in> set xs)"
| "py_contains k (PStr s) = Inr (is_substring k s)"
| "py_contains k v = Inl (Exn TypeError ''argument is not iterable'')"

text \<open>\<^verbatim>\<open>v.get(k, dflt)\<close>: only a dictionary has the method.\<close>

fun py_get :: "pyval \<Rightarrow> string \<Rightarrow> pyval \<Rightarrow> exn + pyval" where
  "py_get (PDict d) k dflt = Inr (case dict_lookup d k of None \<Rightarrow> dflt | Some v \<Rightarrow> v)"
| "py_get v k dflt = Inl (Exn AttributeError ''object has no attribute get'')"

text \<open>\<^verbatim>\<open>v[k]\<close> for a string \<open>k\<close>.\<close>

fun py_getitem :: "pyval \<Rightarrow> string \<Rightarrow> exn + pyval" where
  "py_getitem (PDict d) k =
     (case dict_lookup d k of None \<Rightarrow> Inl (Exn KeyError k) | Some v \<Rightarrow> Inr v)"
| "py_getitem (PList xs) k = Inl (Exn TypeError ''list indices must be integers or slices, not str'')"
| "py_getitem (PStr s) k = Inl (Exn TypeError ''string indices must be integers'')"
| "py_getitem v k = Inl (Exn TypeError ''object is not subscriptable'')"

text \<open>\<^verbatim>\<open>json.loads(v)\<close>: the library parses a \<^verbatim>\<open>str\<close> or \<^verbatim>\<open>bytes\<close> and rejects anything else.\<close>

fun py_json_loads :: "env \<Rightarrow> pyval \<Rightarrow> exn + pyval" where
  "py_json_loads E (PStr s) = json_loads E s"
| "py_json_loads E v = Inl (Exn TypeError ''the JSON object must be str, bytes or bytearray'')"

text \<open>\<^verbatim>\<open>str.lower()\<close> on the ASCII letters; no other character lowers to a letter of \<^verbatim>\<open>json\<close>.\<close>

definition lower_char :: "char \<Rightarrow> char" where
  "lower_char c =
     (let n = (of_char c :: nat) in if 65 \<le> n \<and> n \<le> 90 then char_of (n + 32) else c)"

definition lower :: "string \<Rightarrow> string" where
  "lower s = map lower_char s"

section \<open>Module state and its setters\<close>

record config =
  HEADERS :: pydict
  DNS_SETTINGS :: pydict

definition SERVICE_HOST :: string where
  "SERVICE_HOST = ''127.0.0.1''"

text \<open>\<^verbatim>\<open>d[k] = v\<close>: an existing key keeps its place, a new one goes last.\<close>

fun dict_set :: "string \<Rightarrow> pyval \<Rightarrow> pydict \<Rightarrow> pydict" where
  "dict_set k v [] = [(k, v)]"
| "dict_set k v ((k', v') # d) =
     (if k = k' then (k', v) # d else (k', v') # dict_set k v d)"

text \<open>\<^verbatim>\<open>d.update(m)\<close> for a mapping \<open>m\<close>, item by item.\<close>

fun dict_update :: "pydict \<Rightarrow> pydict \<Rightarrow> pydict" where
  "dict_update d [] = d"
| "dict_update d ((k, v) # m) = dict_update (dict_set k v d) m"

definition dict_clear :: "pydict \<Rightarrow> pydict" where
  "dict_clear d = []"

definition set_headers :: "pydict \<Rightarrow> config \<Rightarrow> config" where
  "set_headers headers c =
     (let c1 = c\<lparr>HEADERS := dict_clear (HEADERS c)\<rparr>
      in c1\<lparr>HEADERS := dict_update (HEADERS c1) headers\<rparr>)"

text \<open>The argument of \<^verbatim>\<open>set_dns_settings\<close> is a mapping or \<^verbatim>\<open>None\<close>.\<close>

definition set_dns_settings :: "pydict option \<Rightarrow> config \<Rightarrow> config" where
  "set_dns_settings settings c =
     (let c1 = c\<lparr>DNS_SETTINGS := dict_clear (DNS_SETTINGS c)\<rparr>
      in (case settings of
            None \<Rightarrow> c1
          | Some m \<Rightarrow> if m \<noteq> [] then c1\<lparr>DNS_SETTINGS := dict_update (DNS_SETTINGS c1) m\<rparr> else c1))"

section \<open>The service client\<close>

text \<open>
  The read loop of \<^verbatim>\<open>load_info_from_service\<close>: it ends when a \<^verbatim>\<open>recv\<close> gives no bytes or
  raises, and runs forever against a peer that never closes. \<open>None\<close> is the run that does
  not end.
\<close>

partial_function (option) read_loop :: "(nat \<Rightarrow> exn + bytes) \<Rightarrow> nat \<Rightarrow> bytes \<Rightarrow> (exn + bytes) option"
where
  "read_loop rcv k response_data =
     (case rcv k of
        Inl e \<Rightarrow> Some (Inl e)
      | Inr chunk \<Rightarrow>
          if chunk = [] then Some (Inr response_data)
          else read_loop rcv (Suc k) (response_data @ chunk))"

declare read_loop.simps [code]

text \<open>
  How the body of the \<^verbatim>\<open>try\<close> statement ends: with a \<^verbatim>\<open>return\<close>, or with an exception
  together with the binding of the local \<^verbatim>\<open>result\<close> at that moment (\<open>None\<close> while line 112
  has not assigned it), which the handler reads.
\<close>

datatype outcome = Returned pyval | Raised exn "pyval option"

definition error_dict :: "string \<Rightarrow> pyval" where
  "error_dict msg = PDict [(''error'', PStr msg)]"

definition PORT_PROPERTY :: string where
  "PORT_PROPERTY = ''TMDB_OPTIMIZATION_SERVICE_PORT''"

text \<open>Lines 109 to 118: the accumulated response is checked, decoded and unwrapped.\<close>

definition decode_response :: "env \<Rightarrow> pyval \<Rightarrow> bytes \<Rightarrow> outcome" where
  "decode_response E batch_payload response_data =
     (if response_data = [] then Returned (error_dict ''Empty response from service'')
      else
        (case json_loads E response_data of
           Inl e \<Rightarrow> Raised e None
         | Inr result \<Rightarrow>
             (case result of
                PList [x] \<Rightarrow> if \<not> truthy batch_payload then Returned x else Returned result
              | _ \<Rightarrow> Returned result)))"

text \<open>Lines 83 to 95: the payload of protocol version 2.\<close>

definition request_data :: "config \<Rightarrow> string \<Rightarrow> pyval \<Rightarrow> pyval \<Rightarrow> pyval \<Rightarrow> pyval \<Rightarrow> pyval" where
  "request_data c url params headers batch_payload dns_settings =
     (let requests_list =
            (if truthy batch_payload then batch_payload
             else PList [PDict [(''url'', PStr url), (''params'', params),
                                (''headers'', py_or headers (PDict []))]])
      in PDict [(''requests'', requests_list),
                (''dns_settings'', py_or dns_settings (PDict (DNS_SETTINGS c)))])"

text \<open>Lines 78 to 107: the socket exchange, once the port is known.\<close>

definition exchange ::
  "env \<Rightarrow> config \<Rightarrow> int \<Rightarrow> string \<Rightarrow> pyval \<Rightarrow> pyval \<Rightarrow> pyval \<Rightarrow> pyval \<Rightarrow> (outcome \<times> event list) option"
where
  "exchange E c service_port url params headers batch_payload dns_settings =
     (case sock_create E of
        Some e \<Rightarrow> Some (Raised e None, [EvSocket])
      | None \<Rightarrow>
     (case sock_connect E SERVICE_HOST service_port of
        Some e \<Rightarrow>
          Some (Raised e None, [EvSocket, EvSettimeout 35, EvConnect SERVICE_HOST service_port])
      | None \<Rightarrow>
     (let evs = [EvSocket, EvSettimeout 35, EvConnect SERVICE_HOST service_port]
      in
     (case json_dumps E (request_data c url params headers batch_payload dns_settings) of
        Inl e \<Rightarrow> Some (Raised e None, evs)
      | Inr payload \<Rightarrow>
     (case sock_sendall E payload of
        Some e \<Rightarrow> Some (Raised e None, evs @ [EvSendall payload])
      | None \<Rightarrow>
     (case read_loop (sock_recv E) 0 [] of
        None \<Rightarrow> None
      | Some (Inl e) \<Rightarrow> Some (Raised e None, evs @ [EvSendall payload])
      | Some (Inr response_data) \<Rightarrow>
          Some (decode_response E batch_payload response_data,
                evs @ [EvSendall payload, EvClose])))))))"

text \<open>Lines 68 to 118: the body of the \<^verbatim>\<open>try\<close> statement.\<close>

definition service_body ::
  "env \<Rightarrow> config \<Rightarrow> string \<Rightarrow> pyval \<Rightarrow> pyval \<Rightarrow> pyval \<Rightarrow> pyval \<Rightarrow> (outcome \<times> event list) option"
where
  "service_body E c url params headers batch_payload dns_settings =
     (if xbmc_imported E then
        (case getProperty E PORT_PROPERTY of
           Inl e \<Rightarrow> Some (Raised e None, [EvGetProperty PORT_PROPERTY])
         | Inr port_str \<Rightarrow>
             if port_str \<noteq> [] then
               (case py_int E port_str of
                  Inl e \<Rightarrow> Some (Raised e None, [EvGetProperty PORT_PROPERTY])
                | Inr service_port \<Rightarrow>
                    map_option (\<lambda>(out, evs). (out, EvGetProperty PORT_PROPERTY # evs))
                      (exchange E c service_port url params headers batch_payload dns_settings))
             else Some (Returned (error_dict ''Service port not found in Window Property''),
                        [EvGetProperty PORT_PROPERTY]))
      else exchange E c 56789 url params headers batch_payload dns_settings)"

text \<open>
  Lines 120 to 125: the first \<^verbatim>\<open>except Exception\<close> clause, the one Python runs. It reads the
  local \<^verbatim>\<open>result\<close>; an unbound local raises \<^verbatim>\<open>UnboundLocalError\<close> out of the handler. The
  two clauses after it (lines 127 to 137) catch the same class and are never chosen.
\<close>

definition first_handler :: "exn \<Rightarrow> pyval option \<Rightarrow> exn + pyval" where
  "first_handler e result =
     (case result of
        None \<Rightarrow> Inl (Exn UnboundLocalError ''local variable result referenced before assignment'')
      | Some r \<Rightarrow>
          (case r of
             PDict d \<Rightarrow>
               if has_key ''error'' d
               then (case py_getitem r ''error'' of
                       Inl e' \<Rightarrow> Inl e'
                     | Inr v \<Rightarrow> Inr (PDict [(''error'', v)]))
               else Inr r
           | _ \<Rightarrow> Inr r))"

definition load_info_from_service ::
  "env \<Rightarrow> config \<Rightarrow> string \<Rightarrow> pyval \<Rightarrow> pyval \<Rightarrow> pyval \<Rightarrow> pyval \<Rightarrow> ((exn + pyval) \<times> event list) option"
where
  "load_info_from_service E c url params headers batch_payload dns_settings =
     (case service_body E c url params headers batch_payload dns_settings of
        None \<Rightarrow> None
      | Some (Returned v, evs) \<Rightarrow> Some (Inr v, evs)
      | Some (Raised e result, evs) \<Rightarrow> Some (first_handler e result, evs))"

section \<open>The request facade\<close>

text \<open>Lines 152 to 159: the debug log of the request, made only under Kodi.\<close>

definition log_request :: "env \<Rightarrow> config \<Rightarrow> string \<Rightarrow> pyval \<Rightarrow> exn + event list" where
  "log_request E c url params =
     (if xbmc_imported E then
        (case (if truthy params
               then (case urlencode E params of
                       Inl e \<Rightarrow> Inl e
                     | Inr q \<Rightarrow> Inr (url @ ''?'' @ q))
               else Inr url) of
           Inl e \<Rightarrow> Inl e
         | Inr log_url \<Rightarrow>
             Inr (EvLog (''Calling URL '' @ [CHR 0x22] @ log_url @ [CHR 0x22]) LOGDEBUG #
                  (if HEADERS c \<noteq> [] then [EvLog (py_str E (PDict (HEADERS c))) LOGDEBUG]
                   else [])))
      else Inr [])"

text \<open>Lines 166 to 169: the service answered without an error.\<close>

definition service_success :: "env \<Rightarrow> pyval \<Rightarrow> string \<Rightarrow> exn + pyval" where
  "service_success E service_result resp_type =
     (if lower resp_type = ''json'' then
        (case py_get service_result ''json'' PNone of
           Inl e \<Rightarrow> Inl e
         | Inr j \<Rightarrow>
             if truthy j then Inr j
             else (case py_get service_result ''text'' (PStr ''{}'') of
                     Inl e \<Rightarrow> Inl e
                   | Inr t \<Rightarrow> py_json_loads E t))
      else py_get service_result ''text'' PNone)"

text \<open>Lines 172 to 173: the warning that names the service error.\<close>

definition log_fallback :: "env \<Rightarrow> pyval \<Rightarrow> exn + event list" where
  "log_fallback E service_result =
     (if xbmc_imported E then
        (case py_getitem service_result ''error'' of
           Inl e \<Rightarrow> Inl e
         | Inr err \<Rightarrow>
             Inr [EvLog (''[TMDB Scraper] -----Service unavailable ('' @ py_str E err @
                         ''), falling back to direct request'') LOGWARNING])
      else Inr [])"

text \<open>Lines 177 to 183: the body of the \<^verbatim>\<open>try\<close> statement around the direct request.\<close>

definition direct_attempt :: "env \<Rightarrow> config \<Rightarrow> string \<Rightarrow> pyval \<Rightarrow> string \<Rightarrow> exn + pyval" where
  "direct_attempt E c url params resp_type =
     (case requests_get E url params (PDict (HEADERS c)) 30 of
        Inl e \<Rightarrow> Inl e
      | Inr resp \<Rightarrow>
          (case raise_for_status E resp of
             Some e \<Rightarrow> Inl e
           | None \<Rightarrow>
               if lower resp_type = ''json'' then resp_json E resp
               else Inr (PStr (text_body resp))))"

text \<open>
  Lines 175 to 189: the direct request with its handler. \<open>default_value\<close> is the parameter
  \<^verbatim>\<open>default\<close>.
\<close>

definition direct_request ::
  "env \<Rightarrow> config \<Rightarrow> string \<Rightarrow> pyval \<Rightarrow> pyval \<Rightarrow> string \<Rightarrow> (exn + pyval) \<times> event list"
where
  "direct_request E c url params default_value resp_type =
     (case direct_attempt E c url params resp_type of
        Inr v \<Rightarrow> (Inr v, [EvHttpGet url params (PDict (HEADERS c)) 30])
      | Inl e \<Rightarrow>
          (let theerror = error_dict (''Direct request failed: '' @ exn_str e)
           in if default_value \<noteq> PNone
              then (Inr default_value, [EvHttpGet url params (PDict (HEADERS c)) 30])
              else (Inr theerror, [EvHttpGet url params (PDict (HEADERS c)) 30])))"

definition load_info ::
  "env \<Rightarrow> config \<Rightarrow> string \<Rightarrow> pyval \<Rightarrow> pyval \<Rightarrow> string \<Rightarrow> ((exn + pyval) \<times> event list) option"
where
  "load_info E c url params default_value resp_type =
     (case log_request E c url params of
        Inl e \<Rightarrow> Some (Inl e, [])
      | Inr evs0 \<Rightarrow>
     (case load_info_from_service E c url params (PDict (HEADERS c)) PNone PNone of
        None \<Rightarrow> None
      | Some (Inl e, evs1) \<Rightarrow> Some (Inl e, evs0 @ evs1)
      | Some (Inr service_result, evs1) \<Rightarrow>
     (case py_contains ''error'' service_result of
        Inl e \<Rightarrow> Some (Inl e, evs0 @ evs1)
      | Inr has_error \<Rightarrow>
          if \<not> has_error
          then Some (service_success E service_result resp_type, evs0 @ evs1)
          else
            (case log_fallback E service_result of
               Inl e \<Rightarrow> Some (Inl e, evs0 @ evs1)
             | Inr evs2 \<Rightarrow>
                 (case direct_request E c url params default_value resp_type of
                    (r, evs3) \<Rightarrow> Some (r, evs0 @ evs1 @ evs2 @ evs3))))))"

section \<open>Concrete environments\<close>

text \<open>
  A Kodi host whose service answers on the discovered port. The parsers know the few
  texts the examples below use (written without their quotation marks) and reject every
  other one.
\<close>

definition digit_val :: "char \<Rightarrow> nat option" where
  "digit_val ch =
     (let n = (of_char ch :: nat) in if 48 \<le> n \<and> n \<le> 57 then Some (n - 48) else None)"

fun digits_val :: "string \<Rightarrow> nat \<Rightarrow> nat option" where
  "digits_val [] acc = Some acc"
| "digits_val (ch # s) acc =
     (case digit_val ch of None \<Rightarrow> None | Some d \<Rightarrow> digits_val s (10 * acc + d))"

definition decimal_int :: "string \<Rightarrow> exn + int" where
  "decimal_int s =
     (case (if s = [] then None else digits_val s 0) of
        None \<Rightarrow> Inl (Exn ValueError (''invalid literal for int() with base 10: '' @ s))
      | Some n \<Rightarrow> Inr (int n))"

definition sample_loads :: "string \<Rightarrow> exn + pyval" where
  "sample_loads s =
     (if s = ''{}'' then Inr (PDict [])
      else if s = ''[1]'' then Inr (PList [PInt 1])
      else if s = ''[{json: []}]'' then Inr (PList [PDict [(''json'', PList [])]])
      else if s = ''[{json: {a: 1}}]''
        then Inr (PList [PDict [(''json'', PDict [(''a'', PInt 1)])]])
      else if s = ''[{status: 204}]'' then Inr (PList [PDict [(''status'', PInt 204)]])
      else if s = ''[{error: x}]'' then Inr (PList [PDict [(''error'', PStr ''x'')]])
      else Inl (Exn JSONDecodeError ''Expecting value: line 1 column 1 (char 0)''))"

definition sample_response :: response where
  "sample_response = \<lparr>status_code = 200, text_body = ''{b: 2}''\<rparr>"

text \<open>A stand-in for the serialiser: it shows the names of the headers of a single request.\<close>

definition sample_dumps :: "pyval \<Rightarrow> exn + bytes" where
  "sample_dumps v =
     Inr (''<request>'' @
          (case v of
             PDict [(r, PList [PDict [u, p, (h, PDict hs)]]), d] \<Rightarrow> concat (map fst hs)
           | _ \<Rightarrow> []))"

definition kodi_env :: "bytes \<Rightarrow> env" where
  "kodi_env reply =
     \<lparr>xbmc_imported = True,
      getProperty = (\<lambda>k. Inr (if k = PORT_PROPERTY then ''40123'' else [])),
      py_int = decimal_int,
      py_str = (\<lambda>v. case v of PStr s \<Rightarrow> s | _ \<Rightarrow> ''<value>''),
      urlencode = (\<lambda>p. Inr ''''),
      sock_create = None,
      sock_connect = (\<lambda>h p. None),
      json_dumps = sample_dumps,
      sock_sendall = (\<lambda>b. None),
      sock_recv = (\<lambda>k. Inr (if k = 0 then reply else [])),
      json_loads = sample_loads,
      requests_get = (\<lambda>u p h t. Inr sample_response),
      raise_for_status = (\<lambda>r. None),
      resp_json = (\<lambda>r. Inr (PDict [(''b'', PInt 2)]))\<rparr>"

text \<open>The same host with the network down: the direct request raises.\<close>

definition offline :: "bytes \<Rightarrow> env" where
  "offline reply =
     kodi_env reply\<lparr>requests_get := \<lambda>u p h t. Inl (Exn RequestException ''Connection timed out'')\<rparr>"

definition config0 :: config where
  "config0 = \<lparr>HEADERS = [], DNS_SETTINGS = []\<rparr>"

definition config1 :: config where
  "config1 = \<lparr>HEADERS = [(''Old'', PStr ''0'')], DNS_SETTINGS = [(''dns'', PStr ''8.8.8.8'')]\<rparr>"

section \<open>Evaluation and basic facts\<close>

lemmas service_defs = load_info_from_service_def service_body_def exchange_def decode_response_def
  request_data_def first_handler_def py_or_def error_dict_def PORT_PROPERTY_def SERVICE_HOST_def

lemmas facade_defs = load_info_def log_request_def log_fallback_def direct_request_def
  direct_attempt_def service_success_def

lemmas sample_defs = kodi_env_def decimal_int_def digit_val_def sample_loads_def
  sample_dumps_def sample_response_def config0_def

lemma lower_JSON: "lower ''JSON'' = ''json''"
  by code_simp

lemma lower_json: "lower ''json'' = ''json''"
  by code_simp

lemma lower_text: "lower ''text'' = ''text''"
  by code_simp

lemma has_key_lookup: "has_key k d \<longleftrightarrow> dict_lookup d k \<noteq> None"
  by (induction d) auto

section \<open>Exceptions inside the service client\<close>

text \<open>
  No statement of the \<^verbatim>\<open>try\<close> body can raise once \<^verbatim>\<open>result\<close> is assigned, so the handler
  always finds the local unbound.
\<close>

lemma decode_unbound: "decode_response E b data = Raised e r \<Longrightarrow> r = None"
  by (auto simp: decode_response_def split: if_splits sum.splits pyval.splits list.splits)

lemma exchange_unbound:
  "exchange E c port url params headers b dns = Some (Raised e r, evs) \<Longrightarrow> r = None"
  by (auto simp: exchange_def Let_def dest: decode_unbound split: option.splits sum.splits)

lemma body_unbound:
  "service_body E c url params headers b dns = Some (Raised e r, evs) \<Longrightarrow> r = None"
  by (auto simp: service_body_def dest: exchange_unbound split: if_splits sum.splits)

text \<open>
  C1. The claim is that every exception raised during \<^verbatim>\<open>load_info_from_service\<close> is caught
  and turned into a dictionary with an \<^verbatim>\<open>error\<close> entry, so that none leaves the function.
  The code does otherwise: whenever the body of the \<^verbatim>\<open>try\<close> statement raises, the handler
  that runs reads the unbound local \<^verbatim>\<open>result\<close>, and \<^verbatim>\<open>UnboundLocalError\<close> leaves the
  function. The example is a service that refuses the connection.
\<close>

theorem body_exception_escapes:
  assumes "service_body E c url params headers batch_payload dns_settings = Some (Raised e r, evs)"
  shows "load_info_from_service E c url params headers batch_payload dns_settings =
           Some (Inl (Exn UnboundLocalError
                        ''local variable result referenced before assignment''), evs)"
  using assms body_unbound[OF assms] by (simp add: load_info_from_service_def first_handler_def)

theorem body_exception_escapes_witness:
  "service_body (kodi_env ''[1]''
       \<lparr>sock_connect := \<lambda>h p. Some (Exn OSError ''[Errno 111] Connection refused'')\<rparr>)
     config0 ''u'' PNone PNone PNone PNone =
     Some (Raised (Exn OSError ''[Errno 111] Connection refused'') None,
           [EvGetProperty PORT_PROPERTY, EvSocket, EvSettimeout 35, EvConnect SERVICE_HOST 40123])
   \<and> load_info_from_service (kodi_env ''[1]''
       \<lparr>sock_connect := \<lambda>h p. Some (Exn OSError ''[Errno 111] Connection refused'')\<rparr>)
     config0 ''u'' PNone PNone PNone PNone =
     Some (Inl (Exn UnboundLocalError ''local variable result referenced before assignment''),
           [EvGetProperty PORT_PROPERTY, EvSocket, EvSettimeout 35, EvConnect SERVICE_HOST 40123])"
proof -
  have body: "service_body (kodi_env ''[1]''
       \<lparr>sock_connect := \<lambda>h p. Some (Exn OSError ''[Errno 111] Connection refused'')\<rparr>)
     config0 ''u'' PNone PNone PNone PNone =
     Some (Raised (Exn OSError ''[Errno 111] Connection refused'') None,
           [EvGetProperty PORT_PROPERTY, EvSocket, EvSettimeout 35, EvConnect SERVICE_HOST 40123])"
    by (simp add: service_body_def exchange_def sample_defs)
  show ?thesis using body body_exception_escapes[OF body] by simp
qed

text \<open>
  C2. The claim is that a port property holding a non-numeric, non-empty string gives a
  dictionary with an \<^verbatim>\<open>error\<close> entry and no uncaught exception. The code does otherwise:
  \<^verbatim>\<open>int(port_str)\<close> raises, the handler reads the unbound local \<^verbatim>\<open>result\<close>, and
  \<^verbatim>\<open>UnboundLocalError\<close> leaves the function before any socket is made. The example is the
  property value \<^verbatim>\<open>abc\<close>.
\<close>

theorem non_numeric_port_escapes:
  assumes "xbmc_imported E" and "getProperty E PORT_PROPERTY = Inr port_str"
    and "port_str \<noteq> []" and "py_int E port_str = Inl e"
  shows "load_info_from_service E c url params headers batch_payload dns_settings =
           Some (Inl (Exn UnboundLocalError
                        ''local variable result referenced before assignment''),
                 [EvGetProperty PORT_PROPERTY])"
  using assms by (simp add: load_info_from_service_def service_body_def first_handler_def)

theorem non_numeric_port_escapes_witness:
  "py_int (kodi_env ''[1]''\<lparr>getProperty := \<lambda>k. Inr ''abc''\<rparr>) ''abc'' =
     Inl (Exn ValueError ''invalid literal for int() with base 10: abc'')
   \<and> load_info_from_service (kodi_env ''[1]''\<lparr>getProperty := \<lambda>k. Inr ''abc''\<rparr>)
         config0 ''u'' PNone PNone PNone PNone =
       Some (Inl (Exn UnboundLocalError ''local variable result referenced before assignment''),
             [EvGetProperty PORT_PROPERTY])"
proof -
  have parse: "py_int (kodi_env ''[1]''\<lparr>getProperty := \<lambda>k. Inr ''abc''\<rparr>) ''abc'' =
     Inl (Exn ValueError ''invalid literal for int() with base 10: abc'')"
    by (simp add: sample_defs)
  have "load_info_from_service (kodi_env ''[1]''\<lparr>getProperty := \<lambda>k. Inr ''abc''\<rparr>)
         config0 ''u'' PNone PNone PNone PNone =
       Some (Inl (Exn UnboundLocalError ''local variable result referenced before assignment''),
             [EvGetProperty PORT_PROPERTY])"
    by (rule non_numeric_port_escapes[OF _ _ _ parse]) (simp_all add: kodi_env_def)
  with parse show ?thesis by simp
qed

section \<open>What a completed exchange returns\<close>

text \<open>
  The event \<open>EvClose\<close> is in the trace of exactly the runs whose read loop ended with the
  peer closing; their result is decided by lines 109 to 118.
\<close>

lemma exchange_closed:
  assumes "exchange E c port url params headers b dns = Some (out, evs)"
      and "EvClose \<in> set evs"
  shows "\<exists>data. read_loop (sock_recv E) 0 [] = Some (Inr data) \<and> out = decode_response E b data"
  using assms
  by (auto simp: exchange_def Let_def split: option.splits sum.splits)

lemma body_closed:
  assumes "service_body E c url params headers b dns = Some (out, evs)"
      and "EvClose \<in> set evs"
  shows "\<exists>data. read_loop (sock_recv E) 0 [] = Some (Inr data) \<and> out = decode_response E b data"
  using assms
  by (auto simp: service_body_def PORT_PROPERTY_def dest: exchange_closed split: if_splits sum.splits)

lemma service_closed:
  assumes "load_info_from_service E c url params headers b dns = Some (r, evs)"
      and "EvClose \<in> set evs"
      and "read_loop (sock_recv E) 0 [] = Some (Inr data)"
  shows "r = (case decode_response E b data of
                Returned v \<Rightarrow> Inr v
              | Raised e res \<Rightarrow> first_handler e res)"
  using assms
  by (auto simp: load_info_from_service_def dest!: body_closed
           split: option.splits outcome.splits prod.splits)

lemma service_events:
  "load_info_from_service E c url params headers b dns = Some (r, evs)
     \<Longrightarrow> \<exists>out. service_body E c url params headers b dns = Some (out, evs)"
  by (auto simp: load_info_from_service_def split: option.splits outcome.splits prod.splits)

lemma sample_loop: "read_loop (sock_recv (kodi_env reply)) 0 [] = Some (Inr reply)"
  by (simp add: kodi_env_def read_loop.simps)

text \<open>
  C3, as the code has it. The test of line 115 is \<^verbatim>\<open>not batch_payload\<close>: a call is a single
  request when its batch payload is absent or empty. For such a call a decoded list of
  exactly one element is replaced by that element; in every other case (a non-empty batch
  payload, a list of another length, a value that is no list) the decoded value is
  returned as it is.
\<close>

theorem single_call_unwraps:
  assumes "load_info_from_service E c url params headers batch_payload dns_settings = Some (out, evs)"
      and "EvClose \<in> set evs"
      and "read_loop (sock_recv E) 0 [] = Some (Inr response_data)"
      and "response_data \<noteq> []"
      and "json_loads E response_data = Inr result"
  shows "(\<not> truthy batch_payload \<and> result = PList [x] \<longrightarrow> out = Inr x) \<and>
         (truthy batch_payload \<or> (\<forall>y. result \<noteq> PList [y]) \<longrightarrow> out = Inr result)"
  using service_closed[OF assms(1-3)] assms(4,5)
  by (auto simp: decode_response_def split: pyval.splits list.splits)

theorem single_call_unwraps_witness:
  "load_info_from_service (kodi_env ''[1]'') config0 ''u'' PNone PNone PNone PNone =
     Some (Inr (PInt 1),
           [EvGetProperty PORT_PROPERTY, EvSocket, EvSettimeout 35, EvConnect SERVICE_HOST 40123,
            EvSendall ''<request>'', EvClose])
   \<and> json_loads (kodi_env ''[1]'') ''[1]'' = Inr (PList [PInt 1])
   \<and> fst (the (load_info_from_service (kodi_env ''[1]'') config0 ''u'' PNone PNone PNone PNone))
       = Inr (PInt 1)
   \<and> fst (the (load_info_from_service (kodi_env ''[1]'') config0 ''u'' PNone PNone
                   (PList [PDict [(''url'', PStr ''u'')]]) PNone))
       = Inr (PList [PInt 1])"
proof -
  have run: "load_info_from_service (kodi_env ''[1]'') config0 ''u'' PNone PNone PNone PNone =
     Some (Inr (PInt 1),
           [EvGetProperty PORT_PROPERTY, EvSocket, EvSettimeout 35, EvConnect SERVICE_HOST 40123,
            EvSendall ''<request>'', EvClose])"
    by (simp add: service_defs sample_defs read_loop.simps)
  have batch: "load_info_from_service (kodi_env ''[1]'') config0 ''u'' PNone PNone
                 (PList [PDict [(''url'', PStr ''u'')]]) PNone =
     Some (fst (the (load_info_from_service (kodi_env ''[1]'') config0 ''u'' PNone PNone
                       (PList [PDict [(''url'', PStr ''u'')]]) PNone)),
           [EvGetProperty PORT_PROPERTY, EvSocket, EvSettimeout 35, EvConnect SERVICE_HOST 40123,
            EvSendall ''<request>'', EvClose])"
    by (simp add: service_defs sample_defs read_loop.simps)
  have loads: "json_loads (kodi_env ''[1]'') ''[1]'' = Inr (PList [PInt 1])"
    by (simp add: sample_defs)
  have single: "fst (the (load_info_from_service (kodi_env ''[1]'') config0 ''u'' PNone PNone
                            PNone PNone)) = Inr (PInt 1)"
    using single_call_unwraps[OF run _ sample_loop _ loads, of "PInt 1"] run by simp
  have many: "fst (the (load_info_from_service (kodi_env ''[1]'') config0 ''u'' PNone PNone
                   (PList [PDict [(''url'', PStr ''u'')]]) PNone)) = Inr (PList [PInt 1])"
    using single_call_unwraps[OF batch _ sample_loop _ loads] by simp
  from run loads single many show ?thesis by simp
qed

text \<open>
  C3 as the claim has it fails for a call that supplies an empty batch payload: the claim
  counts it as a batch call, whose decoded value is returned unchanged, and the code
  unwraps the one-element list.
\<close>

theorem empty_batch_unwraps_counterexample:
  "PList [] \<noteq> PNone
   \<and> json_loads (kodi_env ''[1]'') ''[1]'' = Inr (PList [PInt 1])
   \<and> load_info_from_service (kodi_env ''[1]'') config0 ''u'' PNone PNone (PList []) PNone =
       Some (Inr (PInt 1),
             [EvGetProperty PORT_PROPERTY, EvSocket, EvSettimeout 35, EvConnect SERVICE_HOST 40123,
              EvSendall ''<request>'', EvClose])
   \<and> PInt 1 \<noteq> PList [PInt 1]"
  by (simp add: service_defs sample_defs read_loop.simps)

section \<open>Port discovery\<close>

lemma exchange_connect:
  "exchange E c port url params headers b dns = Some (out, evs) \<Longrightarrow> EvConnect h p \<in> set evs
     \<Longrightarrow> h = SERVICE_HOST \<and> p = port"
  by (auto simp: exchange_def Let_def split: option.splits sum.splits)

lemma exchange_connect_made:
  "exchange E c port url params headers b dns = Some (out, evs) \<Longrightarrow> sock_create E = None
     \<Longrightarrow> EvConnect SERVICE_HOST port \<in> set evs"
  by (auto simp: exchange_def Let_def split: option.splits sum.splits)

lemma body_connect:
  assumes "service_body E c url params headers b dns = Some (out, evs)"
      and "EvConnect h p \<in> set evs"
  shows "h = SERVICE_HOST \<and>
      (if xbmc_imported E
       then \<exists>port_str. getProperty E PORT_PROPERTY = Inr port_str \<and> port_str \<noteq> [] \<and>
                       py_int E port_str = Inr p
       else p = 56789)"
  using assms
  by (auto simp: service_body_def dest: exchange_connect split: if_splits sum.splits)

text \<open>
  C5. With the property store present and the port property empty, the function returns
  the port-discovery error at once: the trace holds the property read and no socket
  event. Every connection the function makes goes to the loopback host; with the store
  present its port is the parsed, non-empty property, and only with the store absent is
  it the fixed port 56789, to which a connection is then attempted.
\<close>

theorem port_discovery:
  "(xbmc_imported E \<and> getProperty E PORT_PROPERTY = Inr [] \<longrightarrow>
      load_info_from_service E c url params headers batch_payload dns_settings =
        Some (Inr (error_dict ''Service port not found in Window Property''),
              [EvGetProperty PORT_PROPERTY])) \<and>
   (load_info_from_service E c url params headers batch_payload dns_settings = Some (out, evs) \<and>
    EvConnect h p \<in> set evs \<longrightarrow>
      h = SERVICE_HOST \<and>
      (if xbmc_imported E
       then \<exists>port_str. getProperty E PORT_PROPERTY = Inr port_str \<and> port_str \<noteq> [] \<and>
                       py_int E port_str = Inr p
       else p = 56789)) \<and>
   (load_info_from_service E c url params headers batch_payload dns_settings = Some (out, evs) \<and>
    \<not> xbmc_imported E \<and> sock_create E = None \<longrightarrow>
      EvConnect SERVICE_HOST 56789 \<in> set evs)"
proof -
  have first: "xbmc_imported E \<and> getProperty E PORT_PROPERTY = Inr [] \<longrightarrow>
      load_info_from_service E c url params headers batch_payload dns_settings =
        Some (Inr (error_dict ''Service port not found in Window Property''),
              [EvGetProperty PORT_PROPERTY])"
    by (simp add: load_info_from_service_def service_body_def)
  have second: "load_info_from_service E c url params headers batch_payload dns_settings = Some (out, evs) \<and>
    EvConnect h p \<in> set evs \<longrightarrow>
      h = SERVICE_HOST \<and>
      (if xbmc_imported E
       then \<exists>port_str. getProperty E PORT_PROPERTY = Inr port_str \<and> port_str \<noteq> [] \<and>
                       py_int E port_str = Inr p
       else p = 56789)"
  proof (intro impI, elim conjE)
    assume run: "load_info_from_service E c url params headers batch_payload dns_settings = Some (out, evs)"
      and ev: "EvConnect h p \<in> set evs"
    from service_events[OF run] obtain o' where
      "service_body E c url params headers batch_payload dns_settings = Some (o', evs)" ..
    from body_connect[OF this ev] show "h = SERVICE_HOST \<and>
      (if xbmc_imported E
       then \<exists>port_str. getProperty E PORT_PROPERTY = Inr port_str \<and> port_str \<noteq> [] \<and>
                       py_int E port_str = Inr p
       else p = 56789)" .
  qed
  have third: "load_info_from_service E c url params headers batch_payload dns_settings = Some (out, evs) \<and>
    \<not> xbmc_imported E \<and> sock_create E = None \<longrightarrow>
      EvConnect SERVICE_HOST 56789 \<in> set evs"
    by (auto simp: service_body_def dest!: service_events dest: exchange_connect_made)
  from first second third show ?thesis by blast
qed

theorem port_discovery_witness:
  "load_info_from_service (kodi_env ''[1]''\<lparr>getProperty := \<lambda>k. Inr []\<rparr>)
       config0 ''u'' PNone PNone PNone PNone =
     Some (Inr (error_dict ''Service port not found in Window Property''),
           [EvGetProperty PORT_PROPERTY])
   \<and> EvConnect SERVICE_HOST 56789 \<in>
       set (snd (the (load_info_from_service (kodi_env ''[1]''\<lparr>xbmc_imported := False\<rparr>)
                        config0 ''u'' PNone PNone PNone PNone)))
   \<and> (\<exists>port_str. getProperty (kodi_env ''[1]'') PORT_PROPERTY = Inr port_str \<and> port_str \<noteq> [] \<and>
                    py_int (kodi_env ''[1]'') port_str = Inr 40123)"
proof -
  have run: "load_info_from_service (kodi_env ''[1]''\<lparr>xbmc_imported := False\<rparr>)
               config0 ''u'' PNone PNone PNone PNone =
     Some (Inr (PInt 1),
           [EvSocket, EvSettimeout 35, EvConnect SERVICE_HOST 56789, EvSendall ''<request>'',
            EvClose])"
    by (simp add: service_defs sample_defs read_loop.simps)
  have kodi: "load_info_from_service (kodi_env ''[1]'') config0 ''u'' PNone PNone PNone PNone =
     Some (Inr (PInt 1),
           [EvGetProperty PORT_PROPERTY, EvSocket, EvSettimeout 35, EvConnect SERVICE_HOST 40123,
            EvSendall ''<request>'', EvClose])"
    by (simp add: service_defs sample_defs read_loop.simps)
  have a: "load_info_from_service (kodi_env ''[1]''\<lparr>getProperty := \<lambda>k. Inr []\<rparr>)
       config0 ''u'' PNone PNone PNone PNone =
     Some (Inr (error_dict ''Service port not found in Window Property''),
           [EvGetProperty PORT_PROPERTY])"
    using port_discovery[of "kodi_env ''[1]''\<lparr>getProperty := \<lambda>k. Inr []\<rparr>"
        config0 "''u''" PNone PNone PNone PNone]
    by (simp add: kodi_env_def)
  have b: "EvConnect SERVICE_HOST 56789 \<in>
       set (snd (the (load_info_from_service (kodi_env ''[1]''\<lparr>xbmc_imported := False\<rparr>)
                        config0 ''u'' PNone PNone PNone PNone)))"
    using port_discovery[of "kodi_env ''[1]''\<lparr>xbmc_imported := False\<rparr>"
        config0 "''u''" PNone PNone PNone PNone "Inr (PInt 1)"
        "[EvSocket, EvSettimeout 35, EvConnect SERVICE_HOST 56789, EvSendall ''<request>'',
            EvClose]"] run
    by (simp add: kodi_env_def)
  have c: "\<exists>port_str. getProperty (kodi_env ''[1]'') PORT_PROPERTY = Inr port_str \<and> port_str \<noteq> [] \<and>
                    py_int (kodi_env ''[1]'') port_str = Inr 40123"
    using port_discovery[of "kodi_env ''[1]''" config0 "''u''" PNone PNone PNone PNone
        "Inr (PInt 1)"
        "[EvGetProperty PORT_PROPERTY, EvSocket, EvSettimeout 35, EvConnect SERVICE_HOST 40123,
            EvSendall ''<request>'', EvClose]" SERVICE_HOST 40123] kodi
    by (simp add: kodi_env_def)
  from a b c show ?thesis by simp
qed

section \<open>The empty response\<close>

text \<open>
  C9. When the read loop ends with no byte accumulated, the function returns the error
  \<^verbatim>\<open>Empty response from service\<close>. The decoder is not consulted: the run is the same
  under any other \<^verbatim>\<open>json.loads\<close>. And the result differs from what the function gives
  when a non-empty response fails to decode.
\<close>

theorem empty_response_error:
  assumes "load_info_from_service E c url params headers batch_payload dns_settings = Some (out, evs)"
      and "EvClose \<in> set evs"
      and "read_loop (sock_recv E) 0 [] = Some (Inr [])"
  shows "out = Inr (error_dict ''Empty response from service'') \<and>
         load_info_from_service (E\<lparr>json_loads := jl\<rparr>) c url params headers batch_payload dns_settings
           = Some (out, evs) \<and>
         (data \<noteq> [] \<and> json_loads E' data = Inl e \<longrightarrow>
            (case decode_response E' b data of
               Returned v \<Rightarrow> Inr v
             | Raised e' res \<Rightarrow> first_handler e' res) \<noteq> out)"
proof -
  have out: "out = Inr (error_dict ''Empty response from service'')"
    using service_closed[OF assms] by (simp add: decode_response_def)
  have indep: "service_body (E\<lparr>json_loads := jl\<rparr>) c url params headers batch_payload dns_settings
      = service_body E c url params headers batch_payload dns_settings"
    using assms(3)
    by (auto simp: service_body_def exchange_def Let_def decode_response_def
             split: option.splits sum.splits)
  have third: "data \<noteq> [] \<and> json_loads E' data = Inl e \<longrightarrow>
            (case decode_response E' b data of
               Returned v \<Rightarrow> Inr v
             | Raised e' res \<Rightarrow> first_handler e' res) \<noteq> out"
    by (auto simp: out decode_response_def first_handler_def)
  show ?thesis using out indep assms(1) third by (simp add: load_info_from_service_def)
qed

theorem empty_response_error_witness:
  "load_info_from_service (kodi_env []) config0 ''u'' PNone PNone PNone PNone =
     Some (Inr (error_dict ''Empty response from service''),
           [EvGetProperty PORT_PROPERTY, EvSocket, EvSettimeout 35, EvConnect SERVICE_HOST 40123,
            EvSendall ''<request>'', EvClose])
   \<and> load_info_from_service (kodi_env []\<lparr>json_loads := \<lambda>s. Inr PNone\<rparr>)
         config0 ''u'' PNone PNone PNone PNone =
     Some (Inr (error_dict ''Empty response from service''),
           [EvGetProperty PORT_PROPERTY, EvSocket, EvSettimeout 35, EvConnect SERVICE_HOST 40123,
            EvSendall ''<request>'', EvClose])
   \<and> json_loads (kodi_env []) ''<html>'' =
       Inl (Exn JSONDecodeError ''Expecting value: line 1 column 1 (char 0)'')
   \<and> (case decode_response (kodi_env []) PNone ''<html>'' of
         Returned v \<Rightarrow> Inr v
       | Raised e' res \<Rightarrow> first_handler e' res)
       \<noteq> Inr (error_dict ''Empty response from service'')"
proof -
  have run: "load_info_from_service (kodi_env []) config0 ''u'' PNone PNone PNone PNone =
     Some (Inr (error_dict ''Empty response from service''),
           [EvGetProperty PORT_PROPERTY, EvSocket, EvSettimeout 35, EvConnect SERVICE_HOST 40123,
            EvSendall ''<request>'', EvClose])"
    by (simp add: service_defs sample_defs read_loop.simps)
  have loads: "json_loads (kodi_env []) ''<html>'' =
       Inl (Exn JSONDecodeError ''Expecting value: line 1 column 1 (char 0)'')"
    by (simp add: sample_defs)
  show ?thesis
    using run loads
      empty_response_error[OF run _ sample_loop, of "\<lambda>s. Inr PNone" "''<html>''" "kodi_env []"
        "Exn JSONDecodeError ''Expecting value: line 1 column 1 (char 0)''" PNone]
    by simp
qed

section \<open>The facade on a dictionary result\<close>

lemma load_info_dict:
  assumes "log_request E c url params = Inr evs0"
      and "load_info_from_service E c url params (PDict (HEADERS c)) PNone PNone =
             Some (Inr (PDict d), evs1)"
  shows "load_info E c url params default_value resp_type =
           (if \<not> has_key ''error'' d
            then Some (service_success E (PDict d) resp_type, evs0 @ evs1)
            else (case log_fallback E (PDict d) of
                    Inl e \<Rightarrow> Some (Inl e, evs0 @ evs1)
                  | Inr evs2 \<Rightarrow>
                      Some (fst (direct_request E c url params default_value resp_type),
                            evs0 @ evs1 @ evs2 @
                            snd (direct_request E c url params default_value resp_type))))"
  using assms by (simp add: load_info_def split: sum.splits prod.splits)

lemma log_fallback_dict:
  assumes "has_key ''error'' d"
  shows "\<exists>evs2. log_fallback E (PDict d) = Inr evs2 \<and> filter is_http_get evs2 = []"
  using assms by (auto simp: log_fallback_def has_key_lookup)

lemma direct_request_events:
  "snd (direct_request E c url params default_value resp_type) =
     [EvHttpGet url params (PDict (HEADERS c)) 30]"
  by (simp add: direct_request_def Let_def split: sum.splits)

lemma direct_request_result:
  "fst (direct_request E c url params default_value resp_type) =
     (case direct_attempt E c url params resp_type of
        Inr v \<Rightarrow> Inr v
      | Inl e \<Rightarrow> Inr (if default_value \<noteq> PNone then default_value
                      else error_dict (''Direct request failed: '' @ exn_str e)))"
  by (simp add: direct_request_def Let_def split: sum.splits)

lemma exchange_no_http:
  "exchange E c port url params headers b dns = Some (out, evs) \<Longrightarrow> filter is_http_get evs = []"
  by (auto simp: exchange_def Let_def split: option.splits sum.splits)

lemma service_no_http:
  assumes "load_info_from_service E c url params headers b dns = Some (r, evs)"
  shows "filter is_http_get evs = []"
proof -
  from service_events[OF assms] obtain out where
    "service_body E c url params headers b dns = Some (out, evs)" ..
  then show ?thesis
    by (auto simp: service_body_def dest: exchange_no_http split: if_splits sum.splits)
qed

lemma log_request_no_http: "log_request E c url params = Inr evs \<Longrightarrow> filter is_http_get evs = []"
  by (auto simp: log_request_def split: if_splits sum.splits)

text \<open>
  C4, as the code has it. Line 167 joins the two sources with \<^verbatim>\<open>or\<close>: for a response type
  that lowers to \<^verbatim>\<open>json\<close>, the \<^verbatim>\<open>json\<close> entry of the result is returned when it is present
  and true in Python's sense; when it is absent or false (\<^verbatim>\<open>None\<close>, \<^verbatim>\<open>False\<close>, zero, an
  empty string, list or dictionary) the \<^verbatim>\<open>text\<close> entry is parsed, or the text of an empty
  object when there is none. For any other response type the \<^verbatim>\<open>text\<close> entry is returned,
  \<^verbatim>\<open>None\<close> when there is none.
\<close>

theorem service_success_result:
  assumes "log_request E c url params = Inr evs0"
      and "load_info_from_service E c url params (PDict (HEADERS c)) PNone PNone =
             Some (Inr (PDict d), evs1)"
      and "\<not> has_key ''error'' d"
  shows "load_info E c url params default_value resp_type =
           Some (if lower resp_type = ''json''
                 then (case dict_lookup d ''json'' of
                         Some j \<Rightarrow>
                           if truthy j then Inr j
                           else py_json_loads E
                                  (case dict_lookup d ''text'' of
                                     None \<Rightarrow> PStr ''{}'' | Some t \<Rightarrow> t)
                       | None \<Rightarrow>
                           py_json_loads E
                             (case dict_lookup d ''text'' of None \<Rightarrow> PStr ''{}'' | Some t \<Rightarrow> t))
                 else Inr (case dict_lookup d ''text'' of None \<Rightarrow> PNone | Some t \<Rightarrow> t),
                 evs0 @ evs1)"
  using assms(3)
  by (simp add: load_info_dict[OF assms(1,2)] service_success_def split: option.splits)

lemma sample_log: "log_request (kodi_env reply) config0 ''u'' PNone =
    Inr [EvLog (''Calling URL '' @ [CHR 0x22] @ ''u'' @ [CHR 0x22]) LOGDEBUG]"
  by (simp add: log_request_def sample_defs)

lemma sample_service:
  "sample_loads reply = Inr (PList [v]) \<Longrightarrow> reply \<noteq> [] \<Longrightarrow>
   load_info_from_service (kodi_env reply) config0 ''u'' PNone (PDict (HEADERS config0)) PNone PNone =
     Some (Inr v,
           [EvGetProperty PORT_PROPERTY, EvSocket, EvSettimeout 35, EvConnect SERVICE_HOST 40123,
            EvSendall ''<request>'', EvClose])"
  by (simp add: service_defs kodi_env_def decimal_int_def digit_val_def sample_dumps_def
                config0_def read_loop.simps)

lemma sample_json_loads: "json_loads (kodi_env reply) = sample_loads"
  by (simp add: kodi_env_def)

theorem service_success_result_witness:
  "load_info (kodi_env ''[{status: 204}]'') config0 ''u'' PNone PNone ''JSON'' =
     Some (Inr (PDict []),
           [EvLog (''Calling URL '' @ [CHR 0x22] @ ''u'' @ [CHR 0x22]) LOGDEBUG,
            EvGetProperty PORT_PROPERTY, EvSocket, EvSettimeout 35, EvConnect SERVICE_HOST 40123,
            EvSendall ''<request>'', EvClose])
   \<and> load_info (kodi_env ''[{json: {a: 1}}]'') config0 ''u'' PNone PNone ''json'' =
     Some (Inr (PDict [(''a'', PInt 1)]),
           [EvLog (''Calling URL '' @ [CHR 0x22] @ ''u'' @ [CHR 0x22]) LOGDEBUG,
            EvGetProperty PORT_PROPERTY, EvSocket, EvSettimeout 35, EvConnect SERVICE_HOST 40123,
            EvSendall ''<request>'', EvClose])"
proof -
  have srv: "load_info_from_service (kodi_env ''[{status: 204}]'') config0 ''u'' PNone
               (PDict (HEADERS config0)) PNone PNone =
     Some (Inr (PDict [(''status'', PInt 204)]),
           [EvGetProperty PORT_PROPERTY, EvSocket, EvSettimeout 35, EvConnect SERVICE_HOST 40123,
            EvSendall ''<request>'', EvClose])"
    by (rule sample_service) (simp_all add: sample_loads_def)
  have srv': "load_info_from_service (kodi_env ''[{json: {a: 1}}]'') config0 ''u'' PNone
               (PDict (HEADERS config0)) PNone PNone =
     Some (Inr (PDict [(''json'', PDict [(''a'', PInt 1)])]),
           [EvGetProperty PORT_PROPERTY, EvSocket, EvSettimeout 35, EvConnect SERVICE_HOST 40123,
            EvSendall ''<request>'', EvClose])"
    by (rule sample_service) (simp_all add: sample_loads_def)
  show ?thesis
    using service_success_result[OF sample_log srv, of PNone "''JSON''"]
          service_success_result[OF sample_log srv', of PNone "''json''"]
    by (simp add: lower_JSON lower_json sample_json_loads sample_loads_def)
qed

text \<open>
  C4 as the claim has it fails when the \<^verbatim>\<open>json\<close> entry is present but false in Python's
  sense: for a result whose \<^verbatim>\<open>json\<close> entry is the empty list and which has no \<^verbatim>\<open>text\<close>
  entry, the claim gives the empty list and the code gives the empty dictionary.
\<close>

theorem falsy_json_field_counterexample:
  "load_info_from_service (kodi_env ''[{json: []}]'') config0 ''u'' PNone
       (PDict (HEADERS config0)) PNone PNone =
     Some (Inr (PDict [(''json'', PList [])]),
           [EvGetProperty PORT_PROPERTY, EvSocket, EvSettimeout 35, EvConnect SERVICE_HOST 40123,
            EvSendall ''<request>'', EvClose])
   \<and> dict_lookup [(''json'', PList [])] ''json'' = Some (PList [])
   \<and> load_info (kodi_env ''[{json: []}]'') config0 ''u'' PNone PNone ''json'' =
       Some (Inr (PDict []),
             [EvLog (''Calling URL '' @ [CHR 0x22] @ ''u'' @ [CHR 0x22]) LOGDEBUG,
              EvGetProperty PORT_PROPERTY, EvSocket, EvSettimeout 35, EvConnect SERVICE_HOST 40123,
              EvSendall ''<request>'', EvClose])
   \<and> PDict [] \<noteq> PList []"
proof -
  have srv: "load_info_from_service (kodi_env ''[{json: []}]'') config0 ''u'' PNone
               (PDict (HEADERS config0)) PNone PNone =
     Some (Inr (PDict [(''json'', PList [])]),
           [EvGetProperty PORT_PROPERTY, EvSocket, EvSettimeout 35, EvConnect SERVICE_HOST 40123,
            EvSendall ''<request>'', EvClose])"
    by (rule sample_service) (simp_all add: sample_loads_def)
  have "load_info (kodi_env ''[{json: []}]'') config0 ''u'' PNone PNone ''json'' =
       Some (Inr (PDict []),
             [EvLog (''Calling URL '' @ [CHR 0x22] @ ''u'' @ [CHR 0x22]) LOGDEBUG,
              EvGetProperty PORT_PROPERTY, EvSocket, EvSettimeout 35, EvConnect SERVICE_HOST 40123,
              EvSendall ''<request>'', EvClose])"
    by (simp add: load_info_dict[OF sample_log srv] service_success_def lower_json
                  sample_json_loads sample_loads_def)
  with srv show ?thesis by simp
qed

text \<open>
  C10. For a response type that does not lower to \<^verbatim>\<open>json\<close> and a result dictionary with
  neither an \<^verbatim>\<open>error\<close> nor a \<^verbatim>\<open>text\<close> entry, \<^verbatim>\<open>load_info\<close> returns \<^verbatim>\<open>None\<close>, whatever default
  the caller passed.
\<close>

theorem missing_text_gives_none:
  assumes "log_request E c url params = Inr evs0"
      and "load_info_from_service E c url params (PDict (HEADERS c)) PNone PNone =
             Some (Inr (PDict d), evs1)"
      and "\<not> has_key ''error'' d"
      and "\<not> has_key ''text'' d"
      and "lower resp_type \<noteq> ''json''"
  shows "load_info E c url params default_value resp_type = Some (Inr PNone, evs0 @ evs1)"
  using assms(3-5)
  by (simp add: load_info_dict[OF assms(1,2)] service_success_def has_key_lookup)

theorem missing_text_gives_none_witness:
  "load_info (kodi_env ''[{status: 204}]'') config0 ''u'' PNone (PList []) ''text'' =
     Some (Inr PNone,
           [EvLog (''Calling URL '' @ [CHR 0x22] @ ''u'' @ [CHR 0x22]) LOGDEBUG,
            EvGetProperty PORT_PROPERTY, EvSocket, EvSettimeout 35, EvConnect SERVICE_HOST 40123,
            EvSendall ''<request>'', EvClose])"
proof -
  have srv: "load_info_from_service (kodi_env ''[{status: 204}]'') config0 ''u'' PNone
               (PDict (HEADERS config0)) PNone PNone =
     Some (Inr (PDict [(''status'', PInt 204)]),
           [EvGetProperty PORT_PROPERTY, EvSocket, EvSettimeout 35, EvConnect SERVICE_HOST 40123,
            EvSendall ''<request>'', EvClose])"
    by (rule sample_service) (simp_all add: sample_loads_def)
  show ?thesis
    using missing_text_gives_none[OF sample_log srv, of "''text''" "PList []"]
    by (simp add: lower_text)
qed

section \<open>The direct request\<close>

text \<open>
  C6. When the service result has an \<^verbatim>\<open>error\<close> entry and the direct request raises (in
  \<^verbatim>\<open>requests.get\<close>, in the status check or in the parse of the body), \<^verbatim>\<open>load_info\<close> returns:
  the caller's default when it is not \<^verbatim>\<open>None\<close>, and otherwise a dictionary whose \<^verbatim>\<open>error\<close>
  entry is a non-empty message.
\<close>

theorem both_fail_default_or_error:
  assumes "log_request E c url params = Inr evs0"
      and "load_info_from_service E c url params (PDict (HEADERS c)) PNone PNone =
             Some (Inr (PDict d), evs1)"
      and "has_key ''error'' d"
      and "direct_attempt E c url params resp_type = Inl e"
  shows "(\<exists>evs. load_info E c url params default_value resp_type =
            Some (Inr (if default_value \<noteq> PNone then default_value
                       else PDict [(''error'', PStr (''Direct request failed: '' @ exn_str e))]),
                  evs))
         \<and> ''Direct request failed: '' @ exn_str e \<noteq> []"
proof -
  from log_fallback_dict[OF assms(3)] obtain evs2 where "log_fallback E (PDict d) = Inr evs2"
    by blast
  then show ?thesis
    using assms(3,4)
    by (simp add: load_info_dict[OF assms(1,2)] direct_request_result error_dict_def)
qed

theorem both_fail_default_or_error_witness:
  "fst (the (load_info (offline ''[{error: x}]'') config0 ''u'' PNone (PList []) ''json''))
     = Inr (PList [])
   \<and> fst (the (load_info (offline ''[{error: x}]'') config0 ''u'' PNone PNone ''json''))
     = Inr (PDict [(''error'', PStr ''Direct request failed: Connection timed out'')])"
proof -
  have log: "log_request (offline ''[{error: x}]'') config0 ''u'' PNone =
      Inr [EvLog (''Calling URL '' @ [CHR 0x22] @ ''u'' @ [CHR 0x22]) LOGDEBUG]"
    by (simp add: log_request_def offline_def sample_defs)
  have srv: "load_info_from_service (offline ''[{error: x}]'') config0 ''u'' PNone
               (PDict (HEADERS config0)) PNone PNone =
     Some (Inr (PDict [(''error'', PStr ''x'')]),
           [EvGetProperty PORT_PROPERTY, EvSocket, EvSettimeout 35, EvConnect SERVICE_HOST 40123,
            EvSendall ''<request>'', EvClose])"
    by (simp add: service_defs offline_def sample_defs read_loop.simps)
  have fails: "direct_attempt (offline ''[{error: x}]'') config0 ''u'' PNone ''json'' =
      Inl (Exn RequestException ''Connection timed out'')"
    by (simp add: direct_attempt_def offline_def kodi_env_def)
  show ?thesis
    using both_fail_default_or_error[OF log srv _ fails, of "PList []"]
          both_fail_default_or_error[OF log srv _ fails, of PNone]
    by auto
qed

text \<open>
  C7. When the service result has an \<^verbatim>\<open>error\<close> entry, \<^verbatim>\<open>load_info\<close> returns, and its trace
  holds exactly one HTTP GET: to the given URL, with the given parameters, the module's
  headers and the timeout 30. When the request gives a response, a status that
  \<^verbatim>\<open>raise_for_status\<close> rejects ends in the failure result; a status it accepts gives the
  parsed body for a response type that lowers to \<^verbatim>\<open>json\<close> and the text of the body for
  any other.
\<close>

theorem fallback_direct_request:
  assumes "log_request E c url params = Inr evs0"
      and "load_info_from_service E c url params (PDict (HEADERS c)) PNone PNone =
             Some (Inr (PDict d), evs1)"
      and "has_key ''error'' d"
  shows "\<exists>r evs. load_info E c url params default_value resp_type = Some (r, evs) \<and>
           filter is_http_get evs = [EvHttpGet url params (PDict (HEADERS c)) 30] \<and>
           (\<forall>resp. requests_get E url params (PDict (HEADERS c)) 30 = Inr resp \<longrightarrow>
              (case raise_for_status E resp of
                 Some e \<Rightarrow>
                   r = Inr (if default_value \<noteq> PNone then default_value
                            else error_dict (''Direct request failed: '' @ exn_str e))
               | None \<Rightarrow>
                   if lower resp_type = ''json''
                   then (\<forall>v. resp_json E resp = Inr v \<longrightarrow> r = Inr v)
                   else r = Inr (PStr (text_body resp))))"
proof -
  from log_fallback_dict[OF assms(3)] obtain evs2 where
    fb: "log_fallback E (PDict d) = Inr evs2" and no2: "filter is_http_get evs2 = []"
    by blast
  have run: "load_info E c url params default_value resp_type =
      Some (fst (direct_request E c url params default_value resp_type),
            evs0 @ evs1 @ evs2 @ [EvHttpGet url params (PDict (HEADERS c)) 30])"
    using assms(3) fb by (simp add: load_info_dict[OF assms(1,2)] direct_request_events)
  have one: "filter is_http_get (evs0 @ evs1 @ evs2 @ [EvHttpGet url params (PDict (HEADERS c)) 30])
      = [EvHttpGet url params (PDict (HEADERS c)) 30]"
    using log_request_no_http[OF assms(1)] service_no_http[OF assms(2)] no2 by simp
  have res: "\<forall>resp. requests_get E url params (PDict (HEADERS c)) 30 = Inr resp \<longrightarrow>
              (case raise_for_status E resp of
                 Some e \<Rightarrow>
                   fst (direct_request E c url params default_value resp_type) =
                     Inr (if default_value \<noteq> PNone then default_value
                          else error_dict (''Direct request failed: '' @ exn_str e))
               | None \<Rightarrow>
                   if lower resp_type = ''json''
                   then (\<forall>v. resp_json E resp = Inr v \<longrightarrow>
                           fst (direct_request E c url params default_value resp_type) = Inr v)
                   else fst (direct_request E c url params default_value resp_type) =
                          Inr (PStr (text_body resp)))"
    by (simp add: direct_request_result direct_attempt_def split: option.splits)
  from run one res show ?thesis by blast
qed

theorem fallback_direct_request_witness:
  "load_info (kodi_env ''[{error: x}]'') config0 ''u'' PNone PNone ''JSON'' =
     Some (Inr (PDict [(''b'', PInt 2)]),
           snd (the (load_info (kodi_env ''[{error: x}]'') config0 ''u'' PNone PNone ''JSON'')))
   \<and> filter is_http_get
         (snd (the (load_info (kodi_env ''[{error: x}]'') config0 ''u'' PNone PNone ''JSON'')))
       = [EvHttpGet ''u'' PNone (PDict []) 30]"
proof -
  have srv: "load_info_from_service (kodi_env ''[{error: x}]'') config0 ''u'' PNone
               (PDict (HEADERS config0)) PNone PNone =
     Some (Inr (PDict [(''error'', PStr ''x'')]),
           [EvGetProperty PORT_PROPERTY, EvSocket, EvSettimeout 35, EvConnect SERVICE_HOST 40123,
            EvSendall ''<request>'', EvClose])"
    by (rule sample_service) (simp_all add: sample_loads_def)
  have get: "requests_get (kodi_env ''[{error: x}]'') ''u'' PNone (PDict (HEADERS config0)) 30 =
      Inr sample_response"
    by (simp add: kodi_env_def)
  have ok: "raise_for_status (kodi_env ''[{error: x}]'') sample_response = None"
    by (simp add: kodi_env_def)
  have body: "resp_json (kodi_env ''[{error: x}]'') sample_response = Inr (PDict [(''b'', PInt 2)])"
    by (simp add: kodi_env_def)
  from fallback_direct_request[OF sample_log srv, of PNone "''JSON''"]
  obtain r evs where
    run: "load_info (kodi_env ''[{error: x}]'') config0 ''u'' PNone PNone ''JSON'' = Some (r, evs)"
    and one: "filter is_http_get evs = [EvHttpGet ''u'' PNone (PDict (HEADERS config0)) 30]"
    and res: "\<forall>resp. requests_get (kodi_env ''[{error: x}]'') ''u'' PNone
                       (PDict (HEADERS config0)) 30 = Inr resp \<longrightarrow>
              (case raise_for_status (kodi_env ''[{error: x}]'') resp of
                 Some e \<Rightarrow>
                   r = Inr (if PNone \<noteq> PNone then PNone
                            else error_dict (''Direct request failed: '' @ exn_str e))
               | None \<Rightarrow>
                   if lower ''JSON'' = ''json''
                   then (\<forall>v. resp_json (kodi_env ''[{error: x}]'') resp = Inr v \<longrightarrow> r = Inr v)
                   else r = Inr (PStr (text_body resp)))"
    by auto
  from res get ok body have "r = Inr (PDict [(''b'', PInt 2)])"
    by (simp add: lower_JSON)
  with run one show ?thesis by (simp add: config0_def)
qed

section \<open>The setters\<close>

lemma dict_set_fresh: "k \<notin> fst ` set d \<Longrightarrow> dict_set k v d = d @ [(k, v)]"
  by (induction d) auto

lemma dict_update_distinct: "distinct (map fst (d @ m)) \<Longrightarrow> dict_update d m = d @ m"
proof (induction m arbitrary: d)
  case Nil
  then show ?case by simp
next
  case (Cons kv m)
  obtain k v where kv: "kv = (k, v)" by (cases kv)
  from Cons.prems kv have fresh: "k \<notin> fst ` set d" by auto
  from Cons.prems kv have "distinct (map fst ((d @ [(k, v)]) @ m))" by auto
  from Cons.IH[OF this] show ?case by (simp add: kv dict_set_fresh[OF fresh])
qed

lemma exchange_sendall:
  "exchange E c port url params headers b dns = Some (out, evs) \<Longrightarrow> EvSendall payload \<in> set evs
     \<Longrightarrow> json_dumps E (request_data c url params headers b dns) = Inr payload"
  by (auto simp: exchange_def Let_def split: option.splits sum.splits)

lemma service_sendall:
  assumes "load_info_from_service E c url params headers b dns = Some (r, evs)"
      and "EvSendall payload \<in> set evs"
  shows "json_dumps E (request_data c url params headers b dns) = Inr payload"
proof -
  from service_events[OF assms(1)] obtain out where
    "service_body E c url params headers b dns = Some (out, evs)" ..
  with assms(2) show ?thesis
    by (auto simp: service_body_def dest: exchange_sendall split: if_splits sum.splits)
qed

lemma service_no_get:
  assumes "load_info_from_service E c url params headers b dns = Some (r, evs)"
  shows "EvHttpGet u p h t \<notin> set evs"
proof
  assume "EvHttpGet u p h t \<in> set evs"
  then have "EvHttpGet u p h t \<in> set (filter is_http_get evs)" by simp
  with service_no_http[OF assms] show False by simp
qed

lemma log_request_logs:
  "log_request E c url params = Inr evs \<Longrightarrow> ev \<in> set evs \<Longrightarrow> \<exists>msg lvl. ev = EvLog msg lvl"
  by (auto simp: log_request_def split: if_splits sum.splits)

lemma log_fallback_logs:
  "log_fallback E sr = Inr evs \<Longrightarrow> ev \<in> set evs \<Longrightarrow> \<exists>msg lvl. ev = EvLog msg lvl"
  by (auto simp: log_fallback_def split: if_splits sum.splits)

text \<open>Every send and every GET of a \<^verbatim>\<open>load_info\<close> run carries the module's headers.\<close>

lemma load_info_headers:
  assumes "load_info E c url params default_value resp_type = Some (r, evs)"
  shows "(EvSendall payload \<in> set evs \<longrightarrow>
            json_dumps E (request_data c url params (PDict (HEADERS c)) PNone PNone) = Inr payload)
         \<and> (EvHttpGet u p h t \<in> set evs \<longrightarrow> h = PDict (HEADERS c))"
proof (cases "log_request E c url params")
  case (Inl e)
  with assms show ?thesis by (simp add: load_info_def)
next
  case (Inr evs0)
  note log = this
  show ?thesis
  proof (cases "load_info_from_service E c url params (PDict (HEADERS c)) PNone PNone")
    case None
    with assms log show ?thesis by (simp add: load_info_def)
  next
    case (Some a)
    obtain sr evs1 where a: "a = (sr, evs1)" by (cases a)
    note srv = Some[unfolded a]
    have send1: "EvSendall payload \<in> set evs1 \<Longrightarrow>
        json_dumps E (request_data c url params (PDict (HEADERS c)) PNone PNone) = Inr payload"
      using service_sendall[OF srv] .
    have get1: "EvHttpGet u p h t \<notin> set evs1" using service_no_get[OF srv] .
    have log0: "EvSendall payload \<notin> set evs0 \<and> EvHttpGet u p h t \<notin> set evs0"
      using log_request_logs[OF log] by auto
    have sub: "set evs \<subseteq> set evs0 \<union> set evs1 \<union>
                 {ev. \<exists>msg lvl. ev = EvLog msg lvl} \<union> {EvHttpGet url params (PDict (HEADERS c)) 30}"
      using assms log srv log_fallback_logs[of E]
      by (auto simp: load_info_def direct_request_def Let_def
               split: sum.splits if_splits prod.splits)
    show ?thesis using sub send1 get1 log0 by auto
  qed
qed

text \<open>
  C8. Both setters replace the state: after \<^verbatim>\<open>set_headers(m)\<close> the headers are exactly \<open>m\<close>
  and after \<^verbatim>\<open>set_dns_settings(m)\<close> the DNS settings are exactly \<open>m\<close>, whatever the state
  was before (a mapping has each key once); \<^verbatim>\<open>set_headers({})\<close> leaves no header. A
  \<^verbatim>\<open>load_info\<close> call made after \<^verbatim>\<open>set_headers(m)\<close> sends to the service the serialised
  envelope whose \<^verbatim>\<open>headers\<close> entry is \<open>m\<close>, and passes \<open>m\<close> as the headers of the direct
  request.
\<close>

theorem setters_replace_state:
  assumes "distinct (map fst m)"
  shows "HEADERS (set_headers m c) = m \<and>
         DNS_SETTINGS (set_dns_settings (Some m) c) = m \<and>
         HEADERS (set_headers [] c) = [] \<and>
         (load_info E (set_headers m c) url params default_value resp_type = Some (r, evs) \<longrightarrow>
            (EvSendall payload \<in> set evs \<longrightarrow>
               json_dumps E
                 (PDict [(''requests'',
                          PList [PDict [(''url'', PStr url), (''params'', params),
                                        (''headers'', PDict m)]]),
                         (''dns_settings'', PDict (DNS_SETTINGS c))]) = Inr payload) \<and>
            (EvHttpGet u p h t \<in> set evs \<longrightarrow> h = PDict m))"
proof -
  have upd: "dict_update [] m = m" using dict_update_distinct[of "[]" m] assms by simp
  have hdr: "HEADERS (set_headers m c) = m"
    by (simp add: set_headers_def dict_clear_def Let_def upd)
  have dns: "DNS_SETTINGS (set_dns_settings (Some m) c) = m"
    by (simp add: set_dns_settings_def dict_clear_def Let_def upd)
  have emp: "HEADERS (set_headers [] c) = []"
    by (simp add: set_headers_def dict_clear_def Let_def)
  have keep: "DNS_SETTINGS (set_headers m c) = DNS_SETTINGS c"
    by (simp add: set_headers_def Let_def)
  have env: "request_data (set_headers m c) url params (PDict m) PNone PNone
      = PDict [(''requests'',
                PList [PDict [(''url'', PStr url), (''params'', params), (''headers'', PDict m)]]),
               (''dns_settings'', PDict (DNS_SETTINGS c))]"
    by (simp add: request_data_def py_or_def keep)
  have call: "load_info E (set_headers m c) url params default_value resp_type = Some (r, evs) \<longrightarrow>
            (EvSendall payload \<in> set evs \<longrightarrow>
               json_dumps E
                 (PDict [(''requests'',
                          PList [PDict [(''url'', PStr url), (''params'', params),
                                        (''headers'', PDict m)]]),
                         (''dns_settings'', PDict (DNS_SETTINGS c))]) = Inr payload) \<and>
            (EvHttpGet u p h t \<in> set evs \<longrightarrow> h = PDict m)"
  proof
    assume "load_info E (set_headers m c) url params default_value resp_type = Some (r, evs)"
    from load_info_headers[OF this, of payload u p h t] show
      "(EvSendall payload \<in> set evs \<longrightarrow>
               json_dumps E
                 (PDict [(''requests'',
                          PList [PDict [(''url'', PStr url), (''params'', params),
                                        (''headers'', PDict m)]]),
                         (''dns_settings'', PDict (DNS_SETTINGS c))]) = Inr payload) \<and>
            (EvHttpGet u p h t \<in> set evs \<longrightarrow> h = PDict m)"
      by (simp add: env hdr)
  qed
  from hdr dns emp call show ?thesis by blast
qed

theorem setters_replace_state_witness:
  "HEADERS (set_headers [(''X'', PStr ''1'')] config1) = [(''X'', PStr ''1'')]
   \<and> DNS_SETTINGS (set_dns_settings (Some [(''X'', PStr ''1'')]) config1) = [(''X'', PStr ''1'')]
   \<and> HEADERS (set_headers [] config1) = []
   \<and> load_info (kodi_env ''[{error: x}]'') (set_headers [(''X'', PStr ''1'')] config1)
         ''u'' PNone PNone ''json'' =
       Some (Inr (PDict [(''b'', PInt 2)]),
             [EvLog (''Calling URL '' @ [CHR 0x22] @ ''u'' @ [CHR 0x22]) LOGDEBUG,
              EvLog ''<value>'' LOGDEBUG,
              EvGetProperty PORT_PROPERTY, EvSocket, EvSettimeout 35,
              EvConnect SERVICE_HOST 40123, EvSendall ''<request>X'', EvClose,
              EvLog ''[TMDB Scraper] -----Service unavailable (x), falling back to direct request''
                LOGWARNING,
              EvHttpGet ''u'' PNone (PDict [(''X'', PStr ''1'')]) 30])
   \<and> json_dumps (kodi_env ''[{error: x}]'')
         (PDict [(''requests'',
                  PList [PDict [(''url'', PStr ''u''), (''params'', PNone),
                                (''headers'', PDict [(''X'', PStr ''1'')])]]),
                 (''dns_settings'', PDict (DNS_SETTINGS config1))]) = Inr ''<request>X''"
proof -
  have keys: "distinct (map fst [(''X'', PStr ''1'')])" by simp
  have run: "load_info (kodi_env ''[{error: x}]'') (set_headers [(''X'', PStr ''1'')] config1)
         ''u'' PNone PNone ''json'' =
       Some (Inr (PDict [(''b'', PInt 2)]),
             [EvLog (''Calling URL '' @ [CHR 0x22] @ ''u'' @ [CHR 0x22]) LOGDEBUG,
              EvLog ''<value>'' LOGDEBUG,
              EvGetProperty PORT_PROPERTY, EvSocket, EvSettimeout 35,
              EvConnect SERVICE_HOST 40123, EvSendall ''<request>X'', EvClose,
              EvLog ''[TMDB Scraper] -----Service unavailable (x), falling back to direct request''
                LOGWARNING,
              EvHttpGet ''u'' PNone (PDict [(''X'', PStr ''1'')]) 30])"
    by (simp add: facade_defs service_defs sample_defs config1_def set_headers_def dict_clear_def
                  lower_json read_loop.simps)
  show ?thesis
    using run
      setters_replace_state[OF keys, of config1 "kodi_env ''[{error: x}]''" "''u''" PNone PNone
        "''json''" "Inr (PDict [(''b'', PInt 2)])"
        "[EvLog (''Calling URL '' @ [CHR 0x22] @ ''u'' @ [CHR 0x22]) LOGDEBUG,
              EvLog ''<value>'' LOGDEBUG,
              EvGetProperty PORT_PROPERTY, EvSocket, EvSettimeout 35,
              EvConnect SERVICE_HOST 40123, EvSendall ''<request>X'', EvClose,
              EvLog ''[TMDB Scraper] -----Service unavailable (x), falling back to direct request''
                LOGWARNING,
              EvHttpGet ''u'' PNone (PDict [(''X'', PStr ''1'')]) 30]"
        "''<request>X''" "''u''" PNone "PDict [(''X'', PStr ''1'')]" 30]
    by simp
qed

end
